theory Spec2Isabelle
  imports Complex_Main "HOL-Library.Product_Lexorder"
begin

section \<open>Python values used by the pricing service\<close>

text \<open>
  The two core functions of the repository are \<^verbatim>\<open>process_total_cost\<close>
  (services/delivery_cost.py) and \<^verbatim>\<open>calculate_distance\<close>
  (services/distance_calculator.py). Both wrap their body in \<^verbatim>\<open>try/except\<close> and
  return a tuple \<^verbatim>\<open>(value, status, message)\<close>. Python integers are unbounded and
  are modelled by \<open>int\<close>. The exceptions that well-typed input can raise inside the two
  bodies are the ones below; each is caught by the final \<^verbatim>\<open>except Exception\<close> handler.
\<close>

datatype py_exception = IndexError | ValueError

text \<open>
  \<^verbatim>\<open>SUCCESS\<close> and \<^verbatim>\<open>FAILURE\<close> are read from config/config.yaml, which is not part of
  the sources; the docstrings give them as 200 and 400. Only their being two different
  values matters here.
\<close>

datatype status = SUCCESS | FAILURE

text \<open>
  \<^verbatim>\<open>xs[i]\<close> on a Python list: an index below zero counts from the end, and an index
  outside \<^verbatim>\<open>-len(xs) .. len(xs) - 1\<close> raises IndexError.
\<close>

definition py_getitem :: "'a list \<Rightarrow> int \<Rightarrow> py_exception + 'a" where
  "py_getitem xs i =
     (if 0 \<le> i \<and> i < int (length xs) then Inr (xs ! nat i)
      else if i < 0 \<and> - int (length xs) \<le> i then Inr (xs ! nat (int (length xs) + i))
      else Inl IndexError)"

text \<open>\<^verbatim>\<open>xs[i] = v\<close>, with the same index rule.\<close>

definition py_setitem :: "'a list \<Rightarrow> int \<Rightarrow> 'a \<Rightarrow> py_exception + 'a list" where
  "py_setitem xs i v =
     (if 0 \<le> i \<and> i < int (length xs) then Inr (xs[nat i := v])
      else if i < 0 \<and> - int (length xs) \<le> i then Inr (xs[nat (int (length xs) + i) := v])
      else Inl IndexError)"

text \<open>\<^verbatim>\<open>max(...)\<close> over a sequence: ValueError when it is empty.\<close>

fun py_max :: "int list \<Rightarrow> py_exception + int" where
  "py_max [] = Inl ValueError"
| "py_max (x # xs) = Inr (fold max xs x)"

text \<open>
  \<^verbatim>\<open>bisect.bisect_right(a, x)\<close> of the standard library, as CPython implements it
  (\<^verbatim>\<open>lo = 0\<close>, \<^verbatim>\<open>hi = len(a)\<close>):
  \<^verbatim>\<open>
    while lo < hi:
        mid = (lo + hi) // 2
        if x < a[mid]: hi = mid
        else: lo = mid + 1
    return lo
  \<close>
  The loop is kept as it is, because the service calls it on a list that is not sorted
  (the sentinel's 0 comes last), where only the algorithm says what is returned.
\<close>

function bisect_loop :: "int list \<Rightarrow> int \<Rightarrow> nat \<Rightarrow> nat \<Rightarrow> nat" where
  "bisect_loop a x lo hi =
     (if lo < hi then
        (if x < a ! ((lo + hi) div 2) then bisect_loop a x lo ((lo + hi) div 2)
         else bisect_loop a x ((lo + hi) div 2 + 1) hi)
      else lo)"
  by pat_completeness auto
termination
  by (relation "measure (\<lambda>(a, x, lo, hi). hi - lo)") auto

definition bisect_right :: "int list \<Rightarrow> int \<Rightarrow> nat" where
  "bisect_right a x = bisect_loop a x 0 (length a)"

text \<open>
  Python's \<^verbatim>\<open>int(x)\<close> on a number: truncation towards zero. The float produced by the
  true division \<^verbatim>\<open>/\<close> is modelled by the exact rational it stands for.
\<close>

definition py_int :: "rat \<Rightarrow> int" where
  "py_int x = (if 0 \<le> x then \<lfloor>x\<rfloor> else \<lceil>x\<rceil>)"

section \<open>Fee schedule\<close>

text \<open>
  One entry of \<^verbatim>\<open>distance_ranges_dict\<close>: a dict with the keys
  \<^verbatim>\<open>min\<close>, \<^verbatim>\<open>max\<close>, \<^verbatim>\<open>a\<close>, \<^verbatim>\<open>b\<close>. The field names carry a prefix because
  \<open>min\<close> and \<open>max\<close> are HOL constants. An entry with \<^verbatim>\<open>max == 0\<close> is the sentinel.
\<close>

record distance_range =
  range_min :: int
  range_max :: int
  range_a :: int
  range_b :: int

text \<open>
  The \<^verbatim>\<open>method\<close> argument is compared with the configuration constants
  \<^verbatim>\<open>O_n\<close>, \<^verbatim>\<open>O_1\<close>, \<^verbatim>\<open>O_Log_n\<close> in this order; any other value takes none of the
  three branches. The constants are taken to be pairwise different.
\<close>

datatype range_method = O_n | O_1 | O_Log_n | Other_method

text \<open>
  The messages of \<^verbatim>\<open>process_total_cost\<close>:
  \<^item> \<open>Delivery_error n\<close> is \<^verbatim>\<open>f"Delivery is not possible. Distance is out of delivery
    range. You should be within {n} meters"\<close>;
  \<^item> \<open>Calculated_total_cost\<close> is \<^verbatim>\<open>"Successfully calculated total cost."\<close>;
  \<^item> \<open>Unexpected_error e\<close> is \<^verbatim>\<open>f"An unexpected error occurred: {e}"\<close>.
  The KeyError and TypeError handlers are not reachable from entries that carry the four
  integer fields.
\<close>

datatype cost_message =
    Delivery_error int
  | Calculated_total_cost
  | Unexpected_error py_exception

text \<open>The response dict; \<^verbatim>\<open>{}\<close> is modelled by \<open>None\<close>.\<close>

record price_breakdown =
  total_price :: int
  small_order_surcharge :: int
  cart_value :: int
  delivery_fee :: int
  delivery_distance :: int

type_synonym cost_result = "price_breakdown option \<times> status \<times> cost_message"

text \<open>
  \<^verbatim>\<open>sorted(distance_ranges_dict, key=lambda x: (x['max'] == 0, x['max']))\<close>.
  Python's sort is stable and tuples compare lexicographically with \<open>False < True\<close>;
  \<open>sort_key\<close> is a stable sort and the product order is the lexicographic one.
\<close>

definition range_key :: "distance_range \<Rightarrow> bool \<times> int" where
  "range_key x = (range_max x = 0, range_max x)"

definition sort_ranges :: "distance_range list \<Rightarrow> distance_range list" where
  "sort_ranges rs = sort_key range_key rs"

text \<open>
  What a lookup branch leaves behind: an exception, the early
  \<^verbatim>\<open>return {}, FAILURE, delivery_error\<close>, or the values of \<^verbatim>\<open>a\<close> and \<^verbatim>\<open>b\<close>.
\<close>

datatype lookup = Raised py_exception | Out_of_range | Params int int

text \<open>
  Branch \<^verbatim>\<open>method == O_n\<close> (lines 53-62): the \<^verbatim>\<open>for\<close> loop over the sorted list. When
  the loop runs out, \<^verbatim>\<open>a\<close> and \<^verbatim>\<open>b\<close> still hold their initial 0.
\<close>

fun linear_scan :: "int \<Rightarrow> distance_range list \<Rightarrow> lookup" where
  "linear_scan distance [] = Params 0 0"
| "linear_scan distance (r # rs) =
     (if range_max r = 0 then Out_of_range
      else if distance - range_max r \<le> 0 then Params (range_a r) (range_b r)
      else linear_scan distance rs)"

text \<open>
  Branch \<^verbatim>\<open>method == O_1\<close> (lines 74-85). \<open>fill_tier\<close> is the inner loop
  \<^verbatim>\<open>for d in range(r['min'], r['max'] + 1): lookup_table[d] = {...}\<close>, \<open>fill_table\<close>
  the outer loop over the sorted entries. The table is a list of \<^verbatim>\<open>max_distance + 1\<close>
  slots, empty when that number is not positive; how much memory the list takes is
  outside the model.
\<close>

type_synonym lookup_table = "(int \<times> int) option list"

fun fill_tier :: "int list \<Rightarrow> distance_range \<Rightarrow> lookup_table \<Rightarrow> py_exception + lookup_table" where
  "fill_tier [] r t = Inr t"
| "fill_tier (d # ds) r t =
     (case py_setitem t d (Some (range_a r, range_b r)) of
        Inl e \<Rightarrow> Inl e
      | Inr t' \<Rightarrow> fill_tier ds r t')"

fun fill_table :: "distance_range list \<Rightarrow> lookup_table \<Rightarrow> py_exception + lookup_table" where
  "fill_table [] t = Inr t"
| "fill_table (r # rs) t =
     (case fill_tier [range_min r..range_max r] r t of
        Inl e \<Rightarrow> Inl e
      | Inr t' \<Rightarrow> fill_table rs t')"

text \<open>
  The closed form of \<open>fill_table\<close> used in the proofs: what slot \<open>d\<close> holds after the
  outer loop has run over the entries, when it held \<open>v\<close> before. A later entry whose
  range \<^verbatim>\<open>min..max\<close> covers \<open>d\<close> overwrites an earlier one.
\<close>

fun table_entry :: "distance_range list \<Rightarrow> int \<Rightarrow> (int \<times> int) option \<Rightarrow> (int \<times> int) option" where
  "table_entry [] d v = v"
| "table_entry (r # rs) d v =
     table_entry rs d (if range_min r \<le> d \<and> d \<le> range_max r then Some (range_a r, range_b r) else v)"

definition table_lookup :: "int \<Rightarrow> distance_range list \<Rightarrow> lookup" where
  "table_lookup distance rs =
     (case py_max (map range_max rs) of
        Inl e \<Rightarrow> Raised e
      | Inr max_distance \<Rightarrow>
         (case fill_table rs (replicate (nat (max_distance + 1)) None) of
            Inl e \<Rightarrow> Raised e
          | Inr table \<Rightarrow>
             (if distance \<le> max_distance then
                (case py_getitem table distance of
                   Inl e \<Rightarrow> Raised e
                 | Inr None \<Rightarrow> Out_of_range
                 | Inr (Some (a, b)) \<Rightarrow> Params a b)
              else Out_of_range)))"

text \<open>Branch \<^verbatim>\<open>method == O_Log_n\<close> (lines 89-98).\<close>

definition binary_search :: "int \<Rightarrow> distance_range list \<Rightarrow> lookup" where
  "binary_search distance rs =
     (let max_values = map range_max rs;
          index = bisect_right max_values distance
      in if index = length max_values then Out_of_range
         else (case py_getitem rs (int index - 1) of
                 Inl e \<Rightarrow> Raised e
               | Inr r \<Rightarrow> Params (range_a r) (range_b r)))"

text \<open>The \<^verbatim>\<open>if/elif\<close> chain on \<^verbatim>\<open>method\<close>; \<^verbatim>\<open>a = 0\<close>, \<^verbatim>\<open>b = 0\<close> when no branch is taken.\<close>

fun resolve :: "range_method \<Rightarrow> int \<Rightarrow> distance_range list \<Rightarrow> lookup" where
  "resolve O_n distance rs = linear_scan distance rs"
| "resolve O_1 distance rs = table_lookup distance rs"
| "resolve O_Log_n distance rs = binary_search distance rs"
| "resolve Other_method distance rs = Params 0 0"

text \<open>Lines 101-114: the three amounts and the response dict.\<close>

definition surcharge_of :: "int \<Rightarrow> int \<Rightarrow> int" where
  "surcharge_of order_minimum_no_surcharge cart = max 0 (order_minimum_no_surcharge - cart)"

definition fee_of :: "int \<Rightarrow> int \<Rightarrow> int \<Rightarrow> int \<Rightarrow> rat" where
  "fee_of a b distance base_price_delivery_fee =
     of_int a + of_int (b * distance) / 10 + of_int base_price_delivery_fee"

definition endpoint_response :: "int \<Rightarrow> int \<Rightarrow> int \<Rightarrow> int \<Rightarrow> int \<Rightarrow> int \<Rightarrow> price_breakdown" where
  "endpoint_response cart distance order_minimum_no_surcharge base_price_delivery_fee a b =
     (let surcharge = surcharge_of order_minimum_no_surcharge cart;
          fee = fee_of a b distance base_price_delivery_fee;
          total = of_int cart + of_int surcharge + fee
      in \<lparr> total_price = py_int total,
           small_order_surcharge = surcharge,
           cart_value = cart,
           delivery_fee = py_int fee,
           delivery_distance = distance \<rparr>)"

text \<open>
  \<^verbatim>\<open>process_total_cost\<close>. The sort and the f-string \<^verbatim>\<open>delivery_error\<close>, which reads
  \<^verbatim>\<open>distance_ranges_dict[-2]["max"]\<close>, come before the choice of the method.
\<close>

definition process_total_cost ::
  "int \<Rightarrow> int \<Rightarrow> int \<Rightarrow> int \<Rightarrow> distance_range list \<Rightarrow> range_method \<Rightarrow> cost_result" where
  "process_total_cost cart distance order_minimum_no_surcharge base_price_delivery_fee
       distance_ranges_dict method =
     (let ranges = sort_ranges distance_ranges_dict
      in case py_getitem ranges (- 2) of
           Inl e \<Rightarrow> (None, FAILURE, Unexpected_error e)
         | Inr r2 \<Rightarrow>
            (case resolve method distance ranges of
               Raised e \<Rightarrow> (None, FAILURE, Unexpected_error e)
             | Out_of_range \<Rightarrow> (None, FAILURE, Delivery_error (range_max r2))
             | Params a b \<Rightarrow>
                 (Some (endpoint_response cart distance order_minimum_no_surcharge
                          base_price_delivery_fee a b),
                  SUCCESS, Calculated_total_cost)))"

text \<open>The schedule of tests/test_delivery_cost.py.\<close>

definition test_schedule :: "distance_range list" where
  "test_schedule =
     [\<lparr>range_min = 0, range_max = 500, range_a = 0, range_b = 0\<rparr>,
      \<lparr>range_min = 500, range_max = 1000, range_a = 100, range_b = 0\<rparr>,
      \<lparr>range_min = 1000, range_max = 1500, range_a = 200, range_b = 0\<rparr>,
      \<lparr>range_min = 1500, range_max = 2000, range_a = 200, range_b = 1\<rparr>,
      \<lparr>range_min = 2000, range_max = 0, range_a = 0, range_b = 0\<rparr>]"



section \<open>Distance between user and venue\<close>

text \<open>
  \<^verbatim>\<open>calculate_distance\<close> works on Python floats. They are modelled by the real numbers
  they stand for, so \<^verbatim>\<open>math.sin\<close>, \<^verbatim>\<open>math.cos\<close>, \<^verbatim>\<open>math.sqrt\<close> are the real
  functions; rounding errors of the machine arithmetic are outside the model.
\<close>

text \<open>\<^verbatim>\<open>math.radians\<close>.\<close>

definition radians :: "real \<Rightarrow> real" where
  "radians x = x * pi / 180"

text \<open>\<^verbatim>\<open>math.sqrt\<close>: ValueError on a negative argument.\<close>

definition py_sqrt :: "real \<Rightarrow> py_exception + real" where
  "py_sqrt x = (if x < 0 then Inl ValueError else Inr (sqrt x))"

text \<open>\<^verbatim>\<open>math.atan2(y, x)\<close>: the angle of the point \<open>(x, y)\<close>, in \<open>(-\<pi>, \<pi>]\<close>.\<close>

definition atan2 :: "real \<Rightarrow> real \<Rightarrow> real" where
  "atan2 y x =
     (if 0 < x then arctan (y / x)
      else if x < 0 then (if 0 \<le> y then arctan (y / x) + pi else arctan (y / x) - pi)
      else if 0 < y then pi / 2
      else if y < 0 then - pi / 2
      else 0)"

text \<open>\<^verbatim>\<open>round(x)\<close> with one argument: the nearest integer, a tie going to the even one.\<close>

definition py_round :: "real \<Rightarrow> int" where
  "py_round x =
     (if x - of_int \<lfloor>x\<rfloor> < 1 / 2 then \<lfloor>x\<rfloor>
      else if 1 / 2 < x - of_int \<lfloor>x\<rfloor> then \<lfloor>x\<rfloor> + 1
      else if even \<lfloor>x\<rfloor> then \<lfloor>x\<rfloor>
      else \<lfloor>x\<rfloor> + 1)"

text \<open>
  \<^verbatim>\<open>SIMPLE\<close> and \<^verbatim>\<open>HAVERSINE\<close> come from config/config.yaml, which is not among the
  sources; their values are the ones the docstring and the error message of
  \<^verbatim>\<open>calculate_distance\<close> give: \<^verbatim>\<open>0 (SIMPLE)\<close>, \<^verbatim>\<open>1 (HAVERSINE)\<close>.
\<close>

definition SIMPLE :: int where
  "SIMPLE = 0"

definition HAVERSINE :: int where
  "HAVERSINE = 1"

text \<open>
  The messages of \<^verbatim>\<open>calculate_distance\<close>:
  \<^item> \<open>Haversine_message\<close> is \<^verbatim>\<open>"Distance calculated using Haversine formula."\<close>;
  \<^item> \<open>Simple_message\<close> is \<^verbatim>\<open>"Distance calculated using the simple Pythagorean theorem."\<close>;
  \<^item> \<open>Invalid_method m\<close> is \<^verbatim>\<open>f"Invalid calculation method: {m}. Use 0 (SIMPLE) or 1
    (HAVERSINE)."\<close>;
  \<^item> \<open>Calculation_error e\<close> is \<^verbatim>\<open>f"An error occurred during distance calculation: {e}"\<close>.
\<close>

datatype distance_message =
    Haversine_message
  | Simple_message
  | Invalid_method int
  | Calculation_error py_exception

definition haversine_a :: "real \<Rightarrow> real \<Rightarrow> real \<Rightarrow> real \<Rightarrow> real" where
  "haversine_a user_lat user_lon venue_lat venue_lon =
     (let delta_lat = venue_lat - user_lat;
          delta_lon = venue_lon - user_lon
      in (sin (delta_lat / 2))\<^sup>2 + cos user_lat * cos venue_lat * (sin (delta_lon / 2))\<^sup>2)"

definition calculate_distance ::
  "real \<Rightarrow> real \<Rightarrow> real \<Rightarrow> real \<Rightarrow> int \<Rightarrow> int \<times> status \<times> distance_message" where
  "calculate_distance user_lat user_lon venue_lat venue_lon method =
     (if method = HAVERSINE then
        (let a = haversine_a (radians user_lat) (radians user_lon)
                   (radians venue_lat) (radians venue_lon)
         in case py_sqrt a of
              Inl e \<Rightarrow> (0, FAILURE, Calculation_error e)
            | Inr root_a \<Rightarrow>
               (case py_sqrt (1 - a) of
                  Inl e \<Rightarrow> (0, FAILURE, Calculation_error e)
                | Inr root_1a \<Rightarrow>
                   (let c = 2 * atan2 root_a root_1a;
                        R = 6371 * 1000;
                        distance_m = R * c
                    in (py_round distance_m, SUCCESS, Haversine_message))))
      else if method = SIMPLE then
        (let km_per_degree_lat = 11132 / 100;
             km_per_degree_lon = 11132 / 100;
             delta_lat = venue_lat - user_lat;
             delta_lon = venue_lon - user_lon;
             y_distance = delta_lat * km_per_degree_lat;
             x_distance = delta_lon * km_per_degree_lon * cos (radians user_lat)
         in case py_sqrt (x_distance\<^sup>2 + y_distance\<^sup>2) of
              Inl e \<Rightarrow> (0, FAILURE, Calculation_error e)
            | Inr distance_km \<Rightarrow>
               (let distance_m = distance_km * 1000
                in (py_round distance_m, SUCCESS, Simple_message)))
      else (0, FAILURE, Invalid_method method))"

section \<open>Properties of the distance calculator\<close>

lemma py_round_zero: "py_round 0 = 0"
  by (simp add: py_round_def)

lemma haversine_a_swap: "haversine_a lat1 lon1 lat2 lon2 = haversine_a lat2 lon2 lat1 lon1"
proof -
  have "sin ((lat2 - lat1) / 2) = - sin ((lat1 - lat2) / 2)"
    by (metis minus_diff_eq minus_divide_left sin_minus)
  moreover have "sin ((lon2 - lon1) / 2) = - sin ((lon1 - lon2) / 2)"
    by (metis minus_diff_eq minus_divide_left sin_minus)
  ultimately show ?thesis
    by (simp add: haversine_a_def Let_def mult.commute)
qed

text \<open>
  Claim C7. Under the haversine method the result for (A, B) is the result for (B, A),
  and for identical coordinates both methods return distance 0 with SUCCESS.
\<close>

theorem calculate_distance_symmetric_and_zero:
  "calculate_distance lat1 lon1 lat2 lon2 HAVERSINE =
     calculate_distance lat2 lon2 lat1 lon1 HAVERSINE
   \<and> calculate_distance lat1 lon1 lat1 lon1 HAVERSINE = (0, SUCCESS, Haversine_message)
   \<and> calculate_distance lat1 lon1 lat1 lon1 SIMPLE = (0, SUCCESS, Simple_message)"
proof (intro conjI)
  show "calculate_distance lat1 lon1 lat2 lon2 HAVERSINE =
        calculate_distance lat2 lon2 lat1 lon1 HAVERSINE"
    by (simp add: calculate_distance_def haversine_a_swap [of "radians lat1" "radians lon1"])
  have "haversine_a (radians lat1) (radians lon1) (radians lat1) (radians lon1) = 0"
    by (simp add: haversine_a_def)
  then show "calculate_distance lat1 lon1 lat1 lon1 HAVERSINE = (0, SUCCESS, Haversine_message)"
    by (simp add: calculate_distance_def py_sqrt_def atan2_def py_round_zero)
  show "calculate_distance lat1 lon1 lat1 lon1 SIMPLE = (0, SUCCESS, Simple_message)"
    by (simp add: calculate_distance_def SIMPLE_def HAVERSINE_def py_sqrt_def py_round_zero)
qed

text \<open>
  Claim C8. A method value that is neither SIMPLE nor HAVERSINE gives distance 0, status
  FAILURE and the invalid-method message; neither algorithm is run.
\<close>

theorem calculate_distance_invalid_method:
  "method \<noteq> SIMPLE \<Longrightarrow> method \<noteq> HAVERSINE \<Longrightarrow>
   calculate_distance user_lat user_lon venue_lat venue_lon method =
     (0, FAILURE, Invalid_method method)"
  by (simp add: calculate_distance_def)

theorem calculate_distance_invalid_method_witness:
  "(999::int) \<noteq> SIMPLE \<and> 999 \<noteq> HAVERSINE \<and>
   calculate_distance (5252 / 100) (13405 / 1000) (525 / 10) (134 / 10) 999 =
     (0, FAILURE, Invalid_method 999)"
  using calculate_distance_invalid_method [of 999 "5252 / 100" "13405 / 1000" "525 / 10" "134 / 10"]
  by (simp add: SIMPLE_def HAVERSINE_def)

section \<open>Properties of the pricing\<close>

lemma py_getitem_too_short: "length xs < 2 \<Longrightarrow> py_getitem xs (- 2) = Inl IndexError"
  by (auto simp add: py_getitem_def)

lemma py_getitem_second_last:
  "2 \<le> length xs \<Longrightarrow> py_getitem xs (- 2) = Inr (xs ! (length xs - 2))"
  by (auto simp add: py_getitem_def nat_diff_distrib' intro: arg_cong [where f = "nth xs"])

text \<open>
  Claim C9. A schedule with fewer than two entries makes the read of the second-to-last
  sorted entry raise before any lookup; the exception handler returns the empty dict
  with FAILURE, whatever the cart value, the distance and the method.
\<close>

theorem short_schedule_fails:
  "length rs < 2 \<Longrightarrow>
   process_total_cost cart d order_min base rs method =
     (None, FAILURE, Unexpected_error IndexError)"
  by (simp add: process_total_cost_def sort_ranges_def py_getitem_too_short)

theorem short_schedule_fails_witness:
  "length ([] :: distance_range list) < 2
   \<and> process_total_cost 1500 1200 1000 500 [] O_Log_n =
       (None, FAILURE, Unexpected_error IndexError)
   \<and> length [\<lparr>range_min = 0, range_max = 500, range_a = 0, range_b = 0\<rparr>] < 2
   \<and> process_total_cost 1500 300 1000 500
         [\<lparr>range_min = 0, range_max = 500, range_a = 0, range_b = 0\<rparr>] O_n =
       (None, FAILURE, Unexpected_error IndexError)"
  using short_schedule_fails [of "[]" 1500 1200 1000 500 O_Log_n]
    short_schedule_fails [of "[\<lparr>range_min = 0, range_max = 500, range_a = 0, range_b = 0\<rparr>]"
      1500 300 1000 500 O_n]
  by simp

text \<open>
  Claim C5. Whenever a response is produced, its \<open>small_order_surcharge\<close> field is
  \<open>max 0 (order_minimum_no_surcharge - cart_value)\<close>, which is 0 as soon as the cart
  value reaches the minimum.
\<close>

theorem surcharge_field:
  "process_total_cost cart d order_min base rs method = (Some bd, st, msg) \<Longrightarrow>
   small_order_surcharge bd = max 0 (order_min - cart)
   \<and> (order_min \<le> cart \<longrightarrow> small_order_surcharge bd = 0)"
  by (auto simp add: process_total_cost_def Let_def endpoint_response_def surcharge_of_def
      split: sum.splits lookup.splits)

theorem surcharge_field_witness:
  "process_total_cost 800 1200 1000 500 test_schedule O_n =
     (Some \<lparr>total_price = 1700, small_order_surcharge = 200, cart_value = 800,
             delivery_fee = 700, delivery_distance = 1200\<rparr>, SUCCESS, Calculated_total_cost)
   \<and> small_order_surcharge \<lparr>total_price = 1700, small_order_surcharge = 200, cart_value = 800,
             delivery_fee = 700, delivery_distance = 1200\<rparr> = max 0 (1000 - 800)
   \<and> process_total_cost 1500 1200 1000 500 test_schedule O_n =
     (Some \<lparr>total_price = 2200, small_order_surcharge = 0, cart_value = 1500,
             delivery_fee = 700, delivery_distance = 1200\<rparr>, SUCCESS, Calculated_total_cost)
   \<and> (1000::int) \<le> 1500"
proof -
  have e1: "process_total_cost 800 1200 1000 500 test_schedule O_n =
     (Some \<lparr>total_price = 1700, small_order_surcharge = 200, cart_value = 800,
             delivery_fee = 700, delivery_distance = 1200\<rparr>, SUCCESS, Calculated_total_cost)"
    by code_simp
  have e2: "process_total_cost 1500 1200 1000 500 test_schedule O_n =
     (Some \<lparr>total_price = 2200, small_order_surcharge = 0, cart_value = 1500,
             delivery_fee = 700, delivery_distance = 1200\<rparr>, SUCCESS, Calculated_total_cost)"
    by code_simp
  from surcharge_field [OF e1] surcharge_field [OF e2] e1 e2 show ?thesis by simp
qed


lemma py_int_of_int: "py_int (of_int n) = n"
  by (simp add: py_int_def)







section \<open>The lookup table of the O_1 branch\<close>

lemma fill_tier_upto:
  "0 \<le> lo \<Longrightarrow> hi < int (length t) \<Longrightarrow>
   \<exists>t'. fill_tier [lo..hi] r t = Inr t' \<and> length t' = length t
     \<and> (\<forall>i<length t. t' ! i =
          (if lo \<le> int i \<and> int i \<le> hi then Some (range_a r, range_b r) else t ! i))"
proof (induction "nat (hi - lo + 1)" arbitrary: lo t)
  case 0
  then have "hi < lo" by linarith
  then show ?case by auto
next
  case (Suc n)
  then have le: "lo \<le> hi" by linarith
  then have unfold: "[lo..hi] = lo # [lo + 1..hi]" by (simp add: upto_rec1)
  have inb: "0 \<le> lo \<and> lo < int (length t)" using Suc.prems le by linarith
  then have set: "py_setitem t lo (Some (range_a r, range_b r)) =
      Inr (t[nat lo := Some (range_a r, range_b r)])"
    by (simp add: py_setitem_def)
  let ?t1 = "t[nat lo := Some (range_a r, range_b r)]"
  have a: "n = nat (hi - (lo + 1) + 1)" using Suc.hyps(2) by linarith
  have b: "0 \<le> lo + 1" using Suc.prems by simp
  have c: "hi < int (length ?t1)" using Suc.prems by simp
  obtain t' where t': "fill_tier [lo + 1..hi] r ?t1 = Inr t'" "length t' = length ?t1"
    "\<forall>i<length ?t1. t' ! i =
          (if lo + 1 \<le> int i \<and> int i \<le> hi then Some (range_a r, range_b r) else ?t1 ! i)"
    using Suc.hyps(1) [OF a b c] by blast
  have "fill_tier [lo..hi] r t = Inr t'"
    using unfold set t'(1) by simp
  moreover have "length t' = length t" using t'(2) by simp
  moreover have "\<forall>i<length t. t' ! i =
          (if lo \<le> int i \<and> int i \<le> hi then Some (range_a r, range_b r) else t ! i)"
  proof (intro allI impI)
    fix i assume i: "i < length t"
    show "t' ! i = (if lo \<le> int i \<and> int i \<le> hi then Some (range_a r, range_b r) else t ! i)"
    proof (cases "int i = lo")
      case True
      then have "nat lo = i" by simp
      then show ?thesis using t'(3) i True le by simp
    next
      case False
      then have "nat lo \<noteq> i" using inb by linarith
      then have "?t1 ! i = t ! i" by simp
      moreover have "(lo + 1 \<le> int i) = (lo \<le> int i)" using False by linarith
      ultimately show ?thesis using t'(3) i by simp
    qed
  qed
  ultimately show ?case by blast
qed

lemma fill_table_entries:
  "\<forall>r\<in>set rs. 0 \<le> range_min r \<and> range_max r < int (length t) \<Longrightarrow>
   \<exists>t'. fill_table rs t = Inr t' \<and> length t' = length t
     \<and> (\<forall>i<length t. t' ! i = table_entry rs (int i) (t ! i))"
proof (induction rs arbitrary: t)
  case Nil
  then show ?case by simp
next
  case (Cons r rs)
  obtain t1 where t1: "fill_tier [range_min r..range_max r] r t = Inr t1" "length t1 = length t"
    "\<forall>i<length t. t1 ! i =
          (if range_min r \<le> int i \<and> int i \<le> range_max r then Some (range_a r, range_b r) else t ! i)"
    using fill_tier_upto [of "range_min r" "range_max r" t r] Cons.prems by auto
  have "\<forall>q\<in>set rs. 0 \<le> range_min q \<and> range_max q < int (length t1)"
    using Cons.prems t1(2) by simp
  then obtain t' where t': "fill_table rs t1 = Inr t'" "length t' = length t1"
    "\<forall>i<length t1. t' ! i = table_entry rs (int i) (t1 ! i)"
    using Cons.IH [of t1] by blast
  have "fill_table (r # rs) t = Inr t'" using t1(1) t'(1) by simp
  moreover have "length t' = length t" using t1(2) t'(2) by simp
  moreover have "\<forall>i<length t. t' ! i = table_entry (r # rs) (int i) (t ! i)"
    using t1(2,3) t'(3) by simp
  ultimately show ?case by blast
qed

lemma py_max_Max:
  assumes "xs \<noteq> []"
  shows "py_max xs = Inr (Max (set xs))"
proof (cases xs)
  case Nil
  then show ?thesis using assms by simp
next
  case (Cons y ys)
  then show ?thesis using Max.set_eq_fold [of y ys] by simp
qed

lemma table_lookup_entry:
  assumes "rs \<noteq> []" and "\<forall>r\<in>set rs. 0 \<le> range_min r" and "0 \<le> d"
  shows "table_lookup d rs =
     (if d \<le> Max (set (map range_max rs)) then
        (case table_entry rs d None of None \<Rightarrow> Out_of_range | Some (a, b) \<Rightarrow> Params a b)
      else Out_of_range)"
proof -
  let ?M = "Max (set (map range_max rs))"
  let ?t0 = "replicate (nat (?M + 1)) (None :: (int \<times> int) option)"
  have mx: "py_max (map range_max rs) = Inr ?M"
    using assms(1) by (simp add: py_max_Max)
  have "\<forall>r\<in>set rs. 0 \<le> range_min r \<and> range_max r < int (length ?t0)"
  proof (intro ballI conjI)
    fix r assume r: "r \<in> set rs"
    then show "0 \<le> range_min r" using assms(2) by simp
    have "range_max r \<le> ?M" using r by simp
    then show "range_max r < int (length ?t0)" by auto
  qed
  then obtain t' where t': "fill_table rs ?t0 = Inr t'" "length t' = length ?t0"
    "\<forall>i<length ?t0. t' ! i = table_entry rs (int i) (?t0 ! i)"
    using fill_table_entries [of rs ?t0] by blast
  show ?thesis
  proof (cases "d \<le> ?M")
    case True
    then have lt: "nat d < length ?t0" using assms(3) by simp
    then have "t' ! nat d = table_entry rs d None" using t'(3) assms(3) by simp
    moreover have "py_getitem t' d = Inr (t' ! nat d)"
      using lt t'(2) assms(3) by (simp add: py_getitem_def)
    ultimately show ?thesis
      using mx t'(1) True by (simp add: table_lookup_def split: option.splits)
  next
    case False
    then show ?thesis using mx t'(1) by (simp add: table_lookup_def)
  qed
qed

section \<open>The three lookups compared\<close>

lemma process_total_cost_resolved:
  assumes "2 \<le> length rs" and "resolve method d (sort_ranges rs) = Params a b"
  shows "process_total_cost cart d order_min base rs method =
     (Some (endpoint_response cart d order_min base a b), SUCCESS, Calculated_total_cost)"
proof -
  have "2 \<le> length (sort_ranges rs)" using assms(1) by (simp add: sort_ranges_def)
  then have "py_getitem (sort_ranges rs) (- 2) =
      Inr (sort_ranges rs ! (length (sort_ranges rs) - 2))"
    by (rule py_getitem_second_last)
  then show ?thesis using assms(2) by (simp add: process_total_cost_def)
qed


lemma endpoint_response_flat:
  "endpoint_response cart d order_min base a 0 =
     \<lparr>total_price = cart + max 0 (order_min - cart) + (a + base),
      small_order_surcharge = max 0 (order_min - cart),
      cart_value = cart,
      delivery_fee = a + base,
      delivery_distance = d\<rparr>"
proof -
  have f: "fee_of a 0 d base = of_int (a + base)" by (simp add: fee_of_def)
  have t: "of_int cart + of_int (max 0 (order_min - cart)) + (of_int (a + base) :: rat) =
      of_int (cart + max 0 (order_min - cart) + (a + base))" by simp
  show ?thesis
    unfolding endpoint_response_def surcharge_of_def Let_def f t py_int_of_int ..
qed

lemma sort_test_schedule: "sort_ranges test_schedule = test_schedule"
  by code_simp

lemma length_test_schedule: "2 \<le> length test_schedule"
  by (simp add: test_schedule_def)

lemma test_schedule_second_last: "range_max (test_schedule ! (length test_schedule - 2)) = 2000"
  by (simp add: test_schedule_def)

lemma table_lookup_test_schedule:
  assumes "0 \<le> d" and "d \<le> 2000"
  shows "table_lookup d test_schedule =
     (case table_entry test_schedule d None of None \<Rightarrow> Out_of_range | Some (a, b) \<Rightarrow> Params a b)"
proof -
  have "test_schedule \<noteq> []" by (simp add: test_schedule_def)
  moreover have "\<forall>r\<in>set test_schedule. 0 \<le> range_min r" by (simp add: test_schedule_def)
  moreover have "Max (set (map range_max test_schedule)) = 2000" by (simp add: test_schedule_def)
  ultimately show ?thesis using table_lookup_entry [of test_schedule d] assms by simp
qed

text \<open>
  Claim C1 says that the linear scan, the lookup table and the binary search return the
  same result for every distance between 0 and the largest finite \<open>max\<close>. On the
  schedule of the repository's own test they do not. At distance 1200 the linear scan
  resolves the tier \<open>{1000, 1500, 200, 0}\<close> and the binary search the tier before it,
  because it reads \<^verbatim>\<open>distance_ranges_dict[index - 1]\<close> after \<^verbatim>\<open>bisect_right\<close>. At
  distance 1500 the linear scan succeeds and the binary search reports the distance as
  out of range, because the list of \<open>max\<close> values it bisects ends with the sentinel's 0
  and is not sorted. At distance 500, the boundary shared by the first two tiers, the
  linear scan resolves the first tier and the lookup table the second, whose loop
  overwrote slot 500.
\<close>

theorem lookup_strategies_disagree:
  "process_total_cost 1500 1200 1000 500 test_schedule O_n =
     (Some \<lparr>total_price = 2200, small_order_surcharge = 0, cart_value = 1500,
             delivery_fee = 700, delivery_distance = 1200\<rparr>, SUCCESS, Calculated_total_cost)
   \<and> process_total_cost 1500 1200 1000 500 test_schedule O_Log_n =
     (Some \<lparr>total_price = 2100, small_order_surcharge = 0, cart_value = 1500,
             delivery_fee = 600, delivery_distance = 1200\<rparr>, SUCCESS, Calculated_total_cost)
   \<and> process_total_cost 1500 1500 1000 500 test_schedule O_n =
     (Some \<lparr>total_price = 2200, small_order_surcharge = 0, cart_value = 1500,
             delivery_fee = 700, delivery_distance = 1500\<rparr>, SUCCESS, Calculated_total_cost)
   \<and> process_total_cost 1500 1500 1000 500 test_schedule O_Log_n =
     (None, FAILURE, Delivery_error 2000)
   \<and> process_total_cost 1500 500 1000 500 test_schedule O_n =
     (Some \<lparr>total_price = 2000, small_order_surcharge = 0, cart_value = 1500,
             delivery_fee = 500, delivery_distance = 500\<rparr>, SUCCESS, Calculated_total_cost)
   \<and> process_total_cost 1500 500 1000 500 test_schedule O_1 =
     (Some \<lparr>total_price = 2100, small_order_surcharge = 0, cart_value = 1500,
             delivery_fee = 600, delivery_distance = 500\<rparr>, SUCCESS, Calculated_total_cost)"
proof (intro conjI)
  show "process_total_cost 1500 1200 1000 500 test_schedule O_n =
     (Some \<lparr>total_price = 2200, small_order_surcharge = 0, cart_value = 1500,
             delivery_fee = 700, delivery_distance = 1200\<rparr>, SUCCESS, Calculated_total_cost)"
    by code_simp
  show "process_total_cost 1500 1200 1000 500 test_schedule O_Log_n =
     (Some \<lparr>total_price = 2100, small_order_surcharge = 0, cart_value = 1500,
             delivery_fee = 600, delivery_distance = 1200\<rparr>, SUCCESS, Calculated_total_cost)"
    by code_simp
  show "process_total_cost 1500 1500 1000 500 test_schedule O_n =
     (Some \<lparr>total_price = 2200, small_order_surcharge = 0, cart_value = 1500,
             delivery_fee = 700, delivery_distance = 1500\<rparr>, SUCCESS, Calculated_total_cost)"
    by code_simp
  show "process_total_cost 1500 1500 1000 500 test_schedule O_Log_n =
     (None, FAILURE, Delivery_error 2000)"
    by code_simp
  show "process_total_cost 1500 500 1000 500 test_schedule O_n =
     (Some \<lparr>total_price = 2000, small_order_surcharge = 0, cart_value = 1500,
             delivery_fee = 500, delivery_distance = 500\<rparr>, SUCCESS, Calculated_total_cost)"
    by code_simp
  have "table_lookup 500 test_schedule = Params 100 0"
    using table_lookup_test_schedule [of 500] by (simp add: test_schedule_def)
  then have "resolve O_1 500 (sort_ranges test_schedule) = Params 100 0"
    by (simp add: sort_test_schedule)
  from process_total_cost_resolved [OF length_test_schedule this, of 1500 1000 500]
  show "process_total_cost 1500 500 1000 500 test_schedule O_1 =
     (Some \<lparr>total_price = 2100, small_order_surcharge = 0, cart_value = 1500,
             delivery_fee = 600, delivery_distance = 500\<rparr>, SUCCESS, Calculated_total_cost)"
    by (simp add: endpoint_response_flat)
qed

text \<open>
  Claim C4, the scenario of the test: that schedule, cart value 1500, distance 1200. The
  claim expects the tier \<open>{1000, 1500, 200, 0}\<close>, hence a delivery fee of 200 plus the
  base fee. The binary search, which is the default method of main_simple.py, resolves
  the tier \<open>{500, 1000, 100, 0}\<close> instead and the fee is 100 plus the base fee; the linear
  scan and the lookup table give what the claim says.
\<close>

theorem scenario_1200_by_method:
  "process_total_cost 1500 1200 order_min base test_schedule O_Log_n =
     (Some \<lparr>total_price = 1500 + max 0 (order_min - 1500) + (100 + base),
             small_order_surcharge = max 0 (order_min - 1500),
             cart_value = 1500,
             delivery_fee = 100 + base,
             delivery_distance = 1200\<rparr>, SUCCESS, Calculated_total_cost)
   \<and> process_total_cost 1500 1200 order_min base test_schedule O_n =
     (Some \<lparr>total_price = 1500 + max 0 (order_min - 1500) + (200 + base),
             small_order_surcharge = max 0 (order_min - 1500),
             cart_value = 1500,
             delivery_fee = 200 + base,
             delivery_distance = 1200\<rparr>, SUCCESS, Calculated_total_cost)
   \<and> process_total_cost 1500 1200 order_min base test_schedule O_1 =
     (Some \<lparr>total_price = 1500 + max 0 (order_min - 1500) + (200 + base),
             small_order_surcharge = max 0 (order_min - 1500),
             cart_value = 1500,
             delivery_fee = 200 + base,
             delivery_distance = 1200\<rparr>, SUCCESS, Calculated_total_cost)"
proof (intro conjI)
  have "resolve O_Log_n 1200 (sort_ranges test_schedule) = Params 100 0" by code_simp
  from process_total_cost_resolved [OF length_test_schedule this, of 1500 order_min base]
  show "process_total_cost 1500 1200 order_min base test_schedule O_Log_n =
     (Some \<lparr>total_price = 1500 + max 0 (order_min - 1500) + (100 + base),
             small_order_surcharge = max 0 (order_min - 1500),
             cart_value = 1500,
             delivery_fee = 100 + base,
             delivery_distance = 1200\<rparr>, SUCCESS, Calculated_total_cost)"
    by (simp only: endpoint_response_flat)
  have "resolve O_n 1200 (sort_ranges test_schedule) = Params 200 0" by code_simp
  from process_total_cost_resolved [OF length_test_schedule this, of 1500 order_min base]
  show "process_total_cost 1500 1200 order_min base test_schedule O_n =
     (Some \<lparr>total_price = 1500 + max 0 (order_min - 1500) + (200 + base),
             small_order_surcharge = max 0 (order_min - 1500),
             cart_value = 1500,
             delivery_fee = 200 + base,
             delivery_distance = 1200\<rparr>, SUCCESS, Calculated_total_cost)"
    by (simp only: endpoint_response_flat)
  have "table_lookup 1200 test_schedule = Params 200 0"
    using table_lookup_test_schedule [of 1200] by (simp add: test_schedule_def)
  then have "resolve O_1 1200 (sort_ranges test_schedule) = Params 200 0"
    by (simp add: sort_test_schedule)
  from process_total_cost_resolved [OF length_test_schedule this, of 1500 order_min base]
  show "process_total_cost 1500 1200 order_min base test_schedule O_1 =
     (Some \<lparr>total_price = 1500 + max 0 (order_min - 1500) + (200 + base),
             small_order_surcharge = max 0 (order_min - 1500),
             cart_value = 1500,
             delivery_fee = 200 + base,
             delivery_distance = 1200\<rparr>, SUCCESS, Calculated_total_cost)"
    by (simp only: endpoint_response_flat)
qed

section \<open>Sorting and the sentinel\<close>












section \<open>Tier boundaries\<close>





end
